theory Spec2Isabelle
  imports Complex_Main
begin

section \<open>JavaScript numbers\<close>

text \<open>
  A JavaScript number is modelled as an exact real, one of the two infinities, or NaN.
  The arithmetic below follows IEEE 754 on the special values. In \<open>jadd\<close>, \<open>jsub\<close>, \<open>jmul\<close>
  and \<open>jdiv\<close> a finite result is the exact real, and the decimal constants of the source
  (0.15, 1.4, ...) stand for the reals they denote; the interpolation (\<open>lerp\<close> below)
  rounds the result of each operation to a double, and overflows, as the program does.
  The sign of zero is not modelled. No division of the modelled code has a zero divisor.
\<close>

datatype jsnum = Fin real | PInf | NInf | NaN

fun isFinite :: "jsnum \<Rightarrow> bool" where
  "isFinite (Fin r) = True"
| "isFinite PInf = False"
| "isFinite NInf = False"
| "isFinite NaN = False"

fun jneg :: "jsnum \<Rightarrow> jsnum" where
  "jneg (Fin a) = Fin (- a)"
| "jneg PInf = NInf"
| "jneg NInf = PInf"
| "jneg NaN = NaN"

fun jadd :: "jsnum \<Rightarrow> jsnum \<Rightarrow> jsnum" where
  "jadd NaN y = NaN"
| "jadd x NaN = NaN"
| "jadd (Fin a) (Fin b) = Fin (a + b)"
| "jadd PInf NInf = NaN"
| "jadd NInf PInf = NaN"
| "jadd PInf y = PInf"
| "jadd NInf y = NInf"
| "jadd (Fin a) PInf = PInf"
| "jadd (Fin a) NInf = NInf"

definition jsub :: "jsnum \<Rightarrow> jsnum \<Rightarrow> jsnum" where
  "jsub x y = jadd x (jneg y)"

text \<open>The sign of a number that is not NaN: -1, 0 or 1.\<close>

fun jsgn :: "jsnum \<Rightarrow> real" where
  "jsgn (Fin a) = sgn a"
| "jsgn PInf = 1"
| "jsgn NInf = - 1"
| "jsgn NaN = 0"

fun jmul :: "jsnum \<Rightarrow> jsnum \<Rightarrow> jsnum" where
  "jmul NaN y = NaN"
| "jmul x NaN = NaN"
| "jmul (Fin a) (Fin b) = Fin (a * b)"
| "jmul x y =
     (if jsgn x * jsgn y = 0 then NaN else if 0 < jsgn x * jsgn y then PInf else NInf)"

fun jdiv :: "jsnum \<Rightarrow> jsnum \<Rightarrow> jsnum" where
  "jdiv NaN y = NaN"
| "jdiv x NaN = NaN"
| "jdiv (Fin a) (Fin b) =
     (if b \<noteq> 0 then Fin (a / b)
      else if a = 0 then NaN else if 0 < a then PInf else NInf)"
| "jdiv (Fin a) y = Fin 0"
| "jdiv PInf (Fin b) = (if 0 \<le> b then PInf else NInf)"
| "jdiv NInf (Fin b) = (if 0 \<le> b then NInf else PInf)"
| "jdiv x y = NaN"

text \<open>The comparison operators: every comparison with NaN is false.\<close>

fun jlt :: "jsnum \<Rightarrow> jsnum \<Rightarrow> bool" where
  "jlt NaN y = False"
| "jlt x NaN = False"
| "jlt (Fin a) (Fin b) = (a < b)"
| "jlt x PInf = (x \<noteq> PInf)"
| "jlt NInf y = (y \<noteq> NInf)"
| "jlt x y = False"

definition jgt :: "jsnum \<Rightarrow> jsnum \<Rightarrow> bool" where
  "jgt x y = jlt y x"

definition jle :: "jsnum \<Rightarrow> jsnum \<Rightarrow> bool" where
  "jle x y = (x \<noteq> NaN \<and> y \<noteq> NaN \<and> \<not> jlt y x)"

definition jge :: "jsnum \<Rightarrow> jsnum \<Rightarrow> bool" where
  "jge x y = jle y x"

text \<open>Strict equality of two numbers: NaN is not equal to itself.\<close>

definition jeq :: "jsnum \<Rightarrow> jsnum \<Rightarrow> bool" where
  "jeq x y = (x \<noteq> NaN \<and> y \<noteq> NaN \<and> x = y)"

text \<open>\<^verbatim>\<open>Math.max\<close>, \<^verbatim>\<open>Math.min\<close> and \<^verbatim>\<open>Math.abs\<close>: NaN if an argument is NaN.\<close>

definition Math_max :: "jsnum \<Rightarrow> jsnum \<Rightarrow> jsnum" where
  "Math_max x y = (if x = NaN \<or> y = NaN then NaN else if jlt x y then y else x)"

definition Math_min :: "jsnum \<Rightarrow> jsnum \<Rightarrow> jsnum" where
  "Math_min x y = (if x = NaN \<or> y = NaN then NaN else if jlt y x then y else x)"

fun Math_abs :: "jsnum \<Rightarrow> jsnum" where
  "Math_abs (Fin a) = Fin \<bar>a\<bar>"
| "Math_abs PInf = PInf"
| "Math_abs NInf = PInf"
| "Math_abs NaN = NaN"

text \<open>
  \<^verbatim>\<open>Number(v)\<close> for a value that is a number or \<^verbatim>\<open>undefined\<close> (a missing field):
  \<^verbatim>\<open>Number(undefined)\<close> is NaN. \<^verbatim>\<open>x || 0\<close> replaces the falsy numbers, 0 and NaN, by 0.
\<close>

fun Number :: "jsnum option \<Rightarrow> jsnum" where
  "Number None = NaN"
| "Number (Some x) = x"

definition orZero :: "jsnum \<Rightarrow> jsnum" where
  "orZero x = (if x = NaN \<or> x = Fin 0 then Fin 0 else x)"

section \<open>Helpers\<close>

text \<open>
  \<^verbatim>\<open>const clamp = (x, a, b) => Math.max(a, Math.min(b, x));\<close>
  \<^verbatim>\<open>const lerp = (a, b, t) => a + (b - a) * t;\<close>
  \<^verbatim>\<open>const safe = (v) => (Number.isFinite(v) ? v : 0);\<close>
\<close>

definition clamp :: "jsnum \<Rightarrow> jsnum \<Rightarrow> jsnum \<Rightarrow> jsnum" where
  "clamp x a b = Math_max a (Math_min b x)"

text \<open>
  In \<open>lerp\<close> every operation returns its exact result rounded to a double: \<open>b - a\<close> of two
  finite numbers can overflow to an infinity, and then \<open>(b - a) * 0\<close> is NaN. The rounding
  of a real to a double (the nearest double, or an infinity beyond the range) is
  JavaScript's own and is a parameter, \<open>fl\<close>.
\<close>

definition rounded :: "(real \<Rightarrow> jsnum) \<Rightarrow> jsnum \<Rightarrow> jsnum" where
  "rounded fl x = (case x of Fin r \<Rightarrow> fl r | _ \<Rightarrow> x)"

definition lerp :: "(real \<Rightarrow> jsnum) \<Rightarrow> jsnum \<Rightarrow> jsnum \<Rightarrow> jsnum \<Rightarrow> jsnum" where
  "lerp fl a b t = rounded fl (jadd a (rounded fl (jmul (rounded fl (jsub b a)) t)))"

text \<open>
  A rounding for the examples: exact below the overflow threshold of doubles,
  \<open>2 ^ 1024 - 2 ^ 970\<close>, and infinite from there on. It is the rounding of doubles on
  every double and on every real from the threshold on.
\<close>

definition overflowAt :: real where
  "overflowAt = 2 ^ 1024 - 2 ^ 970"

definition roundNoLoss :: "real \<Rightarrow> jsnum" where
  "roundNoLoss x =
     (if overflowAt \<le> x then PInf else if x \<le> - overflowAt then NInf else Fin x)"

definition safe :: "jsnum \<Rightarrow> jsnum" where
  "safe v = (if isFinite v then v else Fin 0)"

section \<open>Stroke severity\<close>

text \<open>
  The four band powers \<^verbatim>\<open>{alpha, beta, theta, delta}\<close>. The fields of the argument of
  \<^verbatim>\<open>computeStrokeSeverity\<close> are numbers or missing (\<open>jsnum option\<close>); the fields of a
  parsed row are numbers (\<open>jsnum\<close>). \<^verbatim>\<open>values?.alpha\<close> is \<^verbatim>\<open>undefined\<close> when \<^verbatim>\<open>values\<close>
  itself is null or undefined, which is the argument \<open>None\<close> here.
\<close>

record 'a bands =
  alpha :: 'a
  beta :: 'a
  theta :: 'a
  delta :: 'a

type_synonym band_values = "jsnum option bands"

definition field :: "(band_values \<Rightarrow> jsnum option) \<Rightarrow> band_values option \<Rightarrow> jsnum option" where
  "field f vo = (case vo of None \<Rightarrow> None | Some v \<Rightarrow> f v)"

definition computeStrokeSeverity :: "band_values option \<Rightarrow> jsnum" where
  "computeStrokeSeverity vals =
     (let al = orZero (Number (field alpha vals));
          th = orZero (Number (field theta vals));
          de = orZero (Number (field delta vals));
          alphaLowTH = Fin 9;
          thetaHighTH = Fin (55 / 10);
          deltaHighTH = Fin (35 / 10);
          alphaLow = clamp (jdiv (jsub alphaLowTH al) alphaLowTH) (Fin 0) (Fin 1);
          thetaHigh = clamp (jdiv (jsub th thetaHighTH) thetaHighTH) (Fin 0) (Fin 1);
          deltaHigh = clamp (jdiv (jsub de deltaHighTH) deltaHighTH) (Fin 0) (Fin 1);
          safeAlpha = Math_max al (Fin (1 / 10));
          tar = jdiv th safeAlpha;
          dar = jdiv de safeAlpha;
          tarNorm = clamp (jdiv (jsub tar (Fin (4 / 10))) (Fin (12 / 10))) (Fin 0) (Fin 1);
          darNorm = clamp (jdiv (jsub dar (Fin (2 / 10))) (Fin 1)) (Fin 0) (Fin 1);
          severity =
            jadd (jadd (jadd (jadd (jmul (Fin (15 / 100)) alphaLow)
                                   (jmul (Fin (3 / 10)) thetaHigh))
                             (jmul (Fin (3 / 10)) deltaHigh))
                       (jmul (Fin (15 / 100)) tarNorm))
                 (jmul (Fin (1 / 10)) darNorm);
          severity' = (if jlt al th \<and> jlt al de then jadd severity (Fin (2 / 10)) else severity)
      in clamp (jmul severity' (Fin (14 / 10))) (Fin 0) (Fin 1))"

text \<open>A number of the closed interval from 0 to 1 (so not NaN).\<close>

fun in01 :: "jsnum \<Rightarrow> bool" where
  "in01 (Fin r) = (0 \<le> r \<and> r \<le> 1)"
| "in01 PInf = False"
| "in01 NInf = False"
| "in01 NaN = False"

text \<open>
  The spec's reading of the input coercion, in its words: every non-finite or missing value
  is replaced by 0 (\<open>safe\<close> is the source's own finite-or-zero helper). The coercion the
  source applies, \<^verbatim>\<open>Number(v) || 0\<close>, replaces only NaN (and a missing field).
\<close>

definition finiteCoercion :: "band_values option \<Rightarrow> band_values option" where
  "finiteCoercion vals =
     Some \<lparr>alpha = Some (safe (Number (field alpha vals))),
           beta = Some (safe (Number (field beta vals))),
           theta = Some (safe (Number (field theta vals))),
           delta = Some (safe (Number (field delta vals)))\<rparr>"

definition nanCoercion :: "band_values option \<Rightarrow> band_values option" where
  "nanCoercion vals =
     Some \<lparr>alpha = Some (orZero (Number (field alpha vals))),
           beta = Some (orZero (Number (field beta vals))),
           theta = Some (orZero (Number (field theta vals))),
           delta = Some (orZero (Number (field delta vals)))\<rparr>"

text \<open>
  The weighted sum with the alpha-suppression bonus (arrow_no_yellow.js, lines 36 to 54)
  read over the reals, for finite inputs; \<open>severity_finite\<close> below relates it to the
  function.
\<close>

definition weightedR :: "real \<Rightarrow> real \<Rightarrow> real \<Rightarrow> real" where
  "weightedR a th de =
     15 / 100 * max 0 (min 1 ((9 - a) / 9)) +
     3 / 10 * max 0 (min 1 ((th - 55 / 10) / (55 / 10))) +
     3 / 10 * max 0 (min 1 ((de - 35 / 10) / (35 / 10))) +
     15 / 100 * max 0 (min 1 ((th / max a (1 / 10) - 4 / 10) / (12 / 10))) +
     1 / 10 * max 0 (min 1 ((de / max a (1 / 10) - 2 / 10) / 1)) +
     (if a < th \<and> a < de then 2 / 10 else 0)"

section \<open>Loading the rows\<close>

text \<open>
  A cell of a row that Papa Parse returns with \<^verbatim>\<open>header: true, dynamicTyping: true\<close>:
  absent (\<^verbatim>\<open>undefined\<close>), \<^verbatim>\<open>null\<close> (an empty cell), a number, a string or a boolean.
  A cell that the parser turns into a date object is not modelled.
\<close>

datatype jsval = Undefined | Null | Num jsnum | Str string | Bool bool

record csv_row =
  subject_number :: jsval
  trial_number :: jsval
  Alpha :: jsval
  Beta :: jsval
  Theta :: jsval
  Delta :: jsval

text \<open>
  \<^verbatim>\<open>Number(v)\<close> on any value. The conversion of a string to a number is JavaScript's own
  (StringToNumber) and is a parameter, \<open>N\<close>; so is \<^verbatim>\<open>String(v)\<close>, the parameter \<open>S\<close> below.
\<close>

fun NumberV :: "(string \<Rightarrow> jsnum) \<Rightarrow> jsval \<Rightarrow> jsnum" where
  "NumberV N Undefined = NaN"
| "NumberV N Null = Fin 0"
| "NumberV N (Num x) = x"
| "NumberV N (Str s) = N s"
| "NumberV N (Bool b) = (if b then Fin 1 else Fin 0)"

text \<open>\<^verbatim>\<open>v != null\<close>: false exactly for \<^verbatim>\<open>null\<close> and \<^verbatim>\<open>undefined\<close>.\<close>

fun notNull :: "jsval \<Rightarrow> bool" where
  "notNull Undefined = False"
| "notNull Null = False"
| "notNull v = True"

text \<open>Truthiness: \<^verbatim>\<open>undefined\<close>, \<^verbatim>\<open>null\<close>, 0, NaN, the empty string and \<^verbatim>\<open>false\<close> are falsy.\<close>

fun truthy :: "jsval \<Rightarrow> bool" where
  "truthy Undefined = False"
| "truthy Null = False"
| "truthy (Num x) = (x \<noteq> NaN \<and> x \<noteq> Fin 0)"
| "truthy (Str s) = (s \<noteq> [])"
| "truthy (Bool b) = b"

text \<open>A parsed row: the band powers, the subject, the trial number \<open>t\<close> and the two ratios.\<close>

record row = "jsnum bands" +
  subject :: string
  t :: jsnum
  ADR :: jsnum
  TAR :: jsnum

text \<open>
  The \<^verbatim>\<open>complete\<close> callback up to the grouping (arrow_no_yellow.js, lines 350 to 369; the
  two variants with three-colour gauges filter in the same way):
  \<^verbatim>\<open>res.data.filter(r => r["trial_number"] != null && r["subject_number"] != null)\<close>
  \<^verbatim>\<open>.map(r => {...}).filter(r => Number.isFinite(r.t))\<close>
\<close>

definition mkRow :: "(string \<Rightarrow> jsnum) \<Rightarrow> (jsval \<Rightarrow> string) \<Rightarrow> csv_row \<Rightarrow> row" where
  "mkRow N S r =
     (let al = NumberV N (Alpha r);
          th = NumberV N (Theta r);
          de = NumberV N (Delta r);
          adr = jdiv al (Math_max de (Fin (1 / 10)));
          tar = jdiv th (Math_max al (Fin (1 / 10)))
      in \<lparr>alpha = al, beta = NumberV N (Beta r), theta = th, delta = de,
          subject = S (subject_number r), t = NumberV N (trial_number r),
          ADR = adr, TAR = tar\<rparr>)"

definition loadRows :: "(string \<Rightarrow> jsnum) \<Rightarrow> (jsval \<Rightarrow> string) \<Rightarrow> csv_row list \<Rightarrow> row list" where
  "loadRows N S data =
     filter (\<lambda>r. isFinite (t r))
       (map (mkRow N S)
          (filter (\<lambda>r. notNull (trial_number r) \<and> notNull (subject_number r)) data))"

text \<open>
  The radar-only variant (arrow_no_yellow.js, lines 776 to 786) filters on truthiness, and
  on \<^verbatim>\<open>!isNaN(r.t)\<close>:
  \<^verbatim>\<open>.filter((r) => r["trial_number"] && r["subject_number"])\<close>. Its rows carry no ratios;
  the two ratio fields are filled as in \<open>mkRow\<close> and are not read by that variant.
\<close>

definition loadRows_radar :: "(string \<Rightarrow> jsnum) \<Rightarrow> (jsval \<Rightarrow> string) \<Rightarrow> csv_row list \<Rightarrow> row list" where
  "loadRows_radar N S data =
     filter (\<lambda>r. t r \<noteq> NaN)
       (map (mkRow N S)
          (filter (\<lambda>r. truthy (trial_number r) \<and> truthy (subject_number r)) data))"

section \<open>Gauge ranges\<close>

record range =
  min_v :: jsnum
  max_v :: jsnum

text \<open>\<^verbatim>\<open>Math.min(...vals)\<close> and \<^verbatim>\<open>Math.max(...vals)\<close>: Infinity and -Infinity on no argument.\<close>

definition Math_min_list :: "jsnum list \<Rightarrow> jsnum" where
  "Math_min_list vals = fold Math_min vals PInf"

definition Math_max_list :: "jsnum list \<Rightarrow> jsnum" where
  "Math_max_list vals = fold Math_max vals NInf"

text \<open>The real value of a finite number (0 on the others, where it is not used).\<close>

fun realOf :: "jsnum \<Rightarrow> real" where
  "realOf (Fin r) = r"
| "realOf x = 0"

text \<open>
  \<^verbatim>\<open>subjectMinMax(rows, key)\<close>; the key, \<^verbatim>\<open>"ADR"\<close> or \<^verbatim>\<open>"TAR"\<close>, is the field selector.
\<close>

definition subjectMinMax :: "row list \<Rightarrow> (row \<Rightarrow> jsnum) \<Rightarrow> range" where
  "subjectMinMax rows key =
     (let vals = filter isFinite (map key rows)
      in if length vals = 0 then \<lparr>min_v = Fin 0, max_v = Fin 1\<rparr>
         else
           let mn = Math_min_list vals;
               mx = Math_max_list vals
           in if jeq mn mx
              then
                let eps = Math_max (Fin (1 / 1000)) (jmul (Math_abs mn) (Fin (5 / 100)))
                in \<lparr>min_v = jsub mn eps, max_v = jadd mx eps\<rparr>
              else \<lparr>min_v = mn, max_v = mx\<rparr>)"

section \<open>Playback\<close>

text \<open>
  The state of \<^verbatim>\<open>App\<close>: the React state variables and the refs. Indices are integers;
  the animation timestamp, and with it \<open>tRef\<close> and \<open>lastTsRef\<close>, is a finite number.
  \<open>lastTsRef = 0\<close> is the falsy "unset" value. The functions below are stated on every
  extension of this record, so that they also run on the state with \<open>stats\<close> of the
  variants whose gauges read it.
\<close>

record app =
  subjects :: "row list list"
  subjectIndex :: int
  i :: int
  playing :: bool
  tRef :: real
  lastTsRef :: real

definition msPerStep :: real where
  "msPerStep = 1200"

definition step :: int where
  "step = 1"

text \<open>\<^verbatim>\<open>xs[k]\<close> is \<^verbatim>\<open>undefined\<close> outside the array.\<close>

definition at_index :: "'a list \<Rightarrow> int \<Rightarrow> 'a option" where
  "at_index xs k = (if 0 \<le> k \<and> k < int (length xs) then Some (xs ! nat k) else None)"

text \<open>\<^verbatim>\<open>const current = subjects[subjectIndex] || [];\<close>\<close>

definition current :: "'a app_scheme \<Rightarrow> row list" where
  "current s = (case at_index (subjects s) (subjectIndex s) of None \<Rightarrow> [] | Some g \<Rightarrow> g)"

text \<open>
  One call of \<^verbatim>\<open>tick(ts)\<close> (arrow_no_yellow.js, lines 405 to 435; the same in all four
  variants), on the state it runs in. The effect registers \<open>tick\<close> only when
  \<^verbatim>\<open>current.length\<close> is not 0, and again after every state change.
\<close>

definition tick :: "'a app_scheme \<Rightarrow> real \<Rightarrow> 'a app_scheme" where
  "tick s ts =
     (if \<not> playing s then s
      else
        let last0 = (if lastTsRef s = 0 then ts else lastTsRef s);
            dt = ts - last0;
            tr = min 1 (tRef s + dt / msPerStep);
            s1 = s\<lparr>lastTsRef := ts, tRef := tr\<rparr>
        in if tr \<ge> 1
           then
             let lastIndex = int (length (current s)) - 1
             in if i s < lastIndex
                then s1\<lparr>i := min (i s + step) lastIndex, tRef := 0\<rparr>
                else if subjectIndex s < int (length (subjects s)) - 1
                  then s1\<lparr>subjectIndex := subjectIndex s + 1, i := 0, tRef := 0, lastTsRef := 0\<rparr>
                  else s1\<lparr>playing := False\<rparr>
           else s1)"

text \<open>The elapsed time that a tick at \<open>ts\<close> adds: \<open>dt\<close> of \<open>tick\<close>.\<close>

definition elapsed :: "'a app_scheme \<Rightarrow> real \<Rightarrow> real" where
  "elapsed s ts = ts - (if lastTsRef s = 0 then ts else lastTsRef s)"

text \<open>A run of ticks, one after the other.\<close>

fun ticks :: "'a app_scheme \<Rightarrow> real list \<Rightarrow> 'a app_scheme" where
  "ticks s [] = s"
| "ticks s (ts # tss) = ticks (tick s ts) tss"

text \<open>
  The button handlers. In the three variants with gauges, Reset, Prev and Next end with
  \<^verbatim>\<open>setPlaying(true)\<close> (arrow_no_yellow.js, lines 473 to 506); in the radar-only variant
  (lines 879 to 912) they do not.
\<close>

datatype variant = Gauges | RadarOnly

definition togglePlay :: "'a app_scheme \<Rightarrow> 'a app_scheme" where
  "togglePlay s = s\<lparr>playing := \<not> playing s, lastTsRef := 0\<rparr>"

definition reset :: "variant \<Rightarrow> 'a app_scheme \<Rightarrow> 'a app_scheme" where
  "reset v s =
     s\<lparr>i := 0, tRef := 0, lastTsRef := 0,
       playing := (case v of Gauges \<Rightarrow> True | RadarOnly \<Rightarrow> playing s)\<rparr>"

text \<open>
  \<^verbatim>\<open>a % b\<close> on integers, for \<open>b\<close> not 0: the remainder has the sign of \<open>a\<close>. The buttons are
  rendered only when \<^verbatim>\<open>current.length\<close> is not 0, so \<^verbatim>\<open>subjects.length\<close> is not 0 in a
  handler; on an empty dataset (where \<^verbatim>\<open>%\<close> would give NaN) the model leaves the state.
\<close>

definition js_rem :: "int \<Rightarrow> int \<Rightarrow> int" where
  "js_rem a b = sgn a * (\<bar>a\<bar> mod \<bar>b\<bar>)"

definition prevSubject :: "variant \<Rightarrow> 'a app_scheme \<Rightarrow> 'a app_scheme" where
  "prevSubject v s =
     (if length (subjects s) = 0 then s
      else s\<lparr>subjectIndex :=
                js_rem (subjectIndex s - 1 + int (length (subjects s))) (int (length (subjects s))),
             i := 0, tRef := 0, lastTsRef := 0,
             playing := (case v of Gauges \<Rightarrow> True | RadarOnly \<Rightarrow> playing s)\<rparr>)"

definition nextSubject :: "variant \<Rightarrow> 'a app_scheme \<Rightarrow> 'a app_scheme" where
  "nextSubject v s =
     (if length (subjects s) = 0 then s
      else s\<lparr>subjectIndex := js_rem (subjectIndex s + 1) (int (length (subjects s))),
             i := 0, tRef := 0, lastTsRef := 0,
             playing := (case v of Gauges \<Rightarrow> True | RadarOnly \<Rightarrow> playing s)\<rparr>)"

text \<open>
  The interpolated reading of one numeric field \<open>f\<close> (arrow_no_yellow.js, lines 441 to
  452): the render shows
  the loading text when \<^verbatim>\<open>current\<close> is empty, and reading a field of \<^verbatim>\<open>undefined\<close> (an index
  outside the series) throws a TypeError.
\<close>

datatype render_error = Loading | TypeError

definition target :: "'a app_scheme \<Rightarrow> int" where
  "target s = min (i s + step) (int (length (current s)) - 1)"

definition sampleField ::
  "(real \<Rightarrow> jsnum) \<Rightarrow> (row \<Rightarrow> jsnum) \<Rightarrow> 'a app_scheme \<Rightarrow> render_error + jsnum" where
  "sampleField fl f s =
     (if length (current s) = 0 then Inl Loading
      else
        case (at_index (current s) (i s), at_index (current s) (target s)) of
          (Some A, Some B) \<Rightarrow> Inr (safe (lerp fl (f A) (f B) (Fin (tRef s))))
        | _ \<Rightarrow> Inl TypeError)"

text \<open>The range of a gauge in the arrow-needle variant (arrow_no_yellow.js, lines 398 to 400).\<close>

definition gaugeRange :: "(row \<Rightarrow> jsnum) \<Rightarrow> 'a app_scheme \<Rightarrow> range" where
  "gaugeRange key s = subjectMinMax (current s) key"

text \<open>
  The two variants with three-colour gauges (part_000, lines 976 to 984 and 1125 to 1126;
  lines 500 to 514 and 631 to 632 in the extended variant) keep the dataset-wide
  \<^verbatim>\<open>stats\<close>, which the load callback computes from all rows, and pass them to the gauges:
  \<^verbatim>\<open>adrMin = Math.min(...adrs, 0)\<close>, \<^verbatim>\<open>adrMax = Math.max(...adrs, 1)\<close>, and the same for TAR;
  \<^verbatim>\<open>min={stats.adrMin} max={stats.adrMax}\<close>. Only the load callback calls \<^verbatim>\<open>setStats\<close>.
\<close>

record stats =
  adrMin :: jsnum
  adrMax :: jsnum
  tarMin :: jsnum
  tarMax :: jsnum

record dashboard = app +
  stats :: stats

definition computeStats :: "row list \<Rightarrow> stats" where
  "computeStats rows =
     (let adrs = filter isFinite (map ADR rows);
          tars = filter isFinite (map TAR rows)
      in \<lparr>adrMin = Math_min_list (adrs @ [Fin 0]), adrMax = Math_max_list (adrs @ [Fin 1]),
          tarMin = Math_min_list (tars @ [Fin 0]), tarMax = Math_max_list (tars @ [Fin 1])\<rparr>)"

definition adrRange_stats :: "'a dashboard_scheme \<Rightarrow> range" where
  "adrRange_stats d = \<lparr>min_v = adrMin (stats d), max_v = adrMax (stats d)\<rparr>"

definition tarRange_stats :: "'a dashboard_scheme \<Rightarrow> range" where
  "tarRange_stats d = \<lparr>min_v = tarMin (stats d), max_v = tarMax (stats d)\<rparr>"

text \<open>
  The bounds of the cursor, and a loaded dataset: at least one subject, and every
  subject's series has a row (the grouping creates a series when it pushes its first row).
\<close>

definition cursorOK :: "'a app_scheme \<Rightarrow> bool" where
  "cursorOK s =
     (0 \<le> subjectIndex s \<and> subjectIndex s < int (length (subjects s)) \<and>
      0 \<le> i s \<and> i s < int (length (current s)) \<and>
      0 \<le> tRef s \<and> tRef s \<le> 1)"

definition loaded :: "row list list \<Rightarrow> bool" where
  "loaded ds = (ds \<noteq> [] \<and> list_all (\<lambda>g. g \<noteq> []) ds)"

text \<open>
  The state after the load (\<^verbatim>\<open>setSubjects(grouped); setSubjectIndex(0); setI(0)\<close>, both
  refs 0, \<^verbatim>\<open>playing\<close> still at its initial \<^verbatim>\<open>true\<close>), and the runs of the application: ticks and
  button clicks, one after the other. \<open>nonNegative\<close> says that every tick of a run adds a
  non-negative elapsed time.
\<close>

definition initial :: "row list list \<Rightarrow> app" where
  "initial ds =
     \<lparr>subjects = ds, subjectIndex = 0, i = 0, playing = True, tRef = 0, lastTsRef = 0\<rparr>"

datatype command = Tick real | TogglePlay | Reset | PrevSubject | NextSubject

fun perform :: "variant \<Rightarrow> 'a app_scheme \<Rightarrow> command \<Rightarrow> 'a app_scheme" where
  "perform v s (Tick ts) = tick s ts"
| "perform v s TogglePlay = togglePlay s"
| "perform v s Reset = reset v s"
| "perform v s PrevSubject = prevSubject v s"
| "perform v s NextSubject = nextSubject v s"

fun run :: "variant \<Rightarrow> 'a app_scheme \<Rightarrow> command list \<Rightarrow> 'a app_scheme" where
  "run v s [] = s"
| "run v s (c # cs) = run v (perform v s c) cs"

fun tickOK :: "'a app_scheme \<Rightarrow> command \<Rightarrow> bool" where
  "tickOK s (Tick ts) = (0 \<le> elapsed s ts)"
| "tickOK s c = True"

fun nonNegative :: "variant \<Rightarrow> 'a app_scheme \<Rightarrow> command list \<Rightarrow> bool" where
  "nonNegative v s [] = True"
| "nonNegative v s (c # cs) = (tickOK s c \<and> nonNegative v (perform v s c) cs)"

section \<open>Trend alert\<close>

text \<open>
  The alert level of \<^verbatim>\<open>AperiodicSlopeChart\<close> (the extended variant, lines 206 and 233 to
  240). The component returns null on an empty history; a field of a history entry is a
  number or missing.
\<close>

record slope_point =
  time :: "jsnum option"
  slope :: "jsnum option"

datatype alert = HIGH | MEDIUM | NORMAL

text \<open>\<^verbatim>\<open>xs.slice(start, end)\<close> on integer arguments: a negative argument counts from the end.\<close>

definition slice :: "'a list \<Rightarrow> int \<Rightarrow> int \<Rightarrow> 'a list" where
  "slice xs start fin =
     (let len = int (length xs);
          k = (if start < 0 then max (len + start) 0 else min start len);
          final = (if fin < 0 then max (len + fin) 0 else min fin len)
      in take (nat (final - k)) (drop (nat k) xs))"

definition alertLevel :: "slope_point list \<Rightarrow> int \<Rightarrow> alert option" where
  "alertLevel history currentIndex =
     (if length history = 0 then None
      else
        let slopes = map (\<lambda>d. orZero (Number (slope d))) history;
            recentWindow = 5;
            recentSlopes = slice slopes (max 0 (currentIndex - recentWindow)) (currentIndex + 1);
            slopeChange =
              (if length recentSlopes > 1
               then jdiv (Math_abs (jsub (last recentSlopes) (hd recentSlopes)))
                      (Fin (real (length recentSlopes)))
               else Fin 0)
        in Some (if jgt slopeChange (Fin (3 / 10)) then HIGH
                 else if jgt slopeChange (Fin (15 / 100)) then MEDIUM else NORMAL))"

text \<open>
  The classification in the spec's words: the last \<open>windowSize + 1\<close> slope values ending at
  \<open>currentIndex\<close> (fewer at the start of the history); the change is 0 on fewer than two
  samples and \<open>|last - first| / count\<close> otherwise.
\<close>

definition trendWindow_spec :: "jsnum list \<Rightarrow> nat \<Rightarrow> nat \<Rightarrow> jsnum list" where
  "trendWindow_spec slopes currentIndex windowSize =
     (let upto = take (currentIndex + 1) slopes
      in drop (length upto - (windowSize + 1)) upto)"

definition classifyTrendAlert_spec :: "jsnum list \<Rightarrow> nat \<Rightarrow> alert" where
  "classifyTrendAlert_spec slopes currentIndex =
     (let w = trendWindow_spec slopes currentIndex 5;
          change = (if length w < 2 then Fin 0
                    else jdiv (Math_abs (jsub (last w) (hd w))) (Fin (real (length w))))
      in if jgt change (Fin (3 / 10)) then HIGH
         else if jgt change (Fin (15 / 100)) then MEDIUM else NORMAL)"

section \<open>Facts about the arithmetic\<close>

lemma clamp01_Fin: "clamp (Fin r) (Fin 0) (Fin 1) = Fin (max 0 (min 1 r))"
  by (simp add: clamp_def Math_max_def Math_min_def)

lemma clamp01_PInf: "clamp PInf (Fin 0) (Fin 1) = Fin 1"
  by (simp add: clamp_def Math_max_def Math_min_def)

lemma clamp01_NInf: "clamp NInf (Fin 0) (Fin 1) = Fin 0"
  by (simp add: clamp_def Math_max_def Math_min_def)

lemma clamp01_NaN: "clamp NaN (Fin 0) (Fin 1) = NaN"
  by (simp add: clamp_def Math_max_def Math_min_def)

lemmas clamp01 = clamp01_Fin clamp01_PInf clamp01_NInf clamp01_NaN

lemma in01_clamp: "in01 (clamp x (Fin 0) (Fin 1)) = (x \<noteq> NaN)"
  by (cases x) (simp_all add: clamp01)

lemma clamp01_finite: "x \<noteq> NaN \<Longrightarrow> isFinite (clamp x (Fin 0) (Fin 1))"
  by (cases x) (simp_all add: clamp01)

lemma clamp01_NaN_iff: "(clamp x (Fin 0) (Fin 1) = NaN) = (x = NaN)"
  by (cases x) (simp_all add: clamp01)

lemma isFinite_not_NaN: "isFinite x \<Longrightarrow> x \<noteq> NaN"
  by (cases x) simp_all

lemma orZero_not_NaN: "orZero x \<noteq> NaN"
  by (simp add: orZero_def)

lemma orZero_Fin: "orZero (Fin a) = Fin a"
  by (simp add: orZero_def)

lemma orZero_idem: "orZero (orZero x) = orZero x"
  by (simp add: orZero_def)

lemma Math_max_Fin: "Math_max (Fin a) (Fin b) = Fin (max a b)"
  by (simp add: Math_max_def)

lemma Math_min_Fin: "Math_min (Fin a) (Fin b) = Fin (min a b)"
  by (simp add: Math_min_def)

lemma jsub_Fin: "jsub (Fin a) (Fin b) = Fin (a - b)"
  by (simp add: jsub_def)

lemma clamp_mono: "x \<le> y \<Longrightarrow> max 0 (min 1 x) \<le> max (0::real) (min 1 y)"
  by (simp add: max_def min_def)

section \<open>The severity score\<close>

lemma alphaLow_arg: "al \<noteq> NaN \<Longrightarrow> jdiv (jsub (Fin 9) al) (Fin 9) \<noteq> NaN"
  by (cases al) (simp_all add: jsub_def)

lemma high_arg: "0 < c \<Longrightarrow> x \<noteq> NaN \<Longrightarrow> jdiv (jsub x (Fin c)) (Fin c) \<noteq> NaN"
  by (cases x) (simp_all add: jsub_def)

lemma ratio_arg:
  "al \<noteq> NaN \<Longrightarrow> x \<noteq> NaN \<Longrightarrow> 0 < d \<Longrightarrow>
   (jdiv (jsub (jdiv x (Math_max al (Fin (1 / 10)))) (Fin c)) (Fin d) = NaN) =
   (al = PInf \<and> \<not> isFinite x)"
  by (cases al; cases x) (simp_all add: jsub_def Math_max_def)

lemma weighted_sum:
  fixes ka kb kc kd ke :: real
  assumes "a = NaN \<or> isFinite a" "b = NaN \<or> isFinite b" "c = NaN \<or> isFinite c"
    "d = NaN \<or> isFinite d" "e = NaN \<or> isFinite e"
  defines "s \<equiv> jadd (jadd (jadd (jadd (jmul (Fin ka) a) (jmul (Fin kb) b)) (jmul (Fin kc) c))
                        (jmul (Fin kd) d)) (jmul (Fin ke) e)"
  shows "(s = NaN \<and> (a = NaN \<or> b = NaN \<or> c = NaN \<or> d = NaN \<or> e = NaN)) \<or>
         (isFinite s \<and> a \<noteq> NaN \<and> b \<noteq> NaN \<and> c \<noteq> NaN \<and> d \<noteq> NaN \<and> e \<noteq> NaN)"
  using assms(1-5) unfolding s_def
  by (cases a; cases b; cases c; cases d; cases e) simp_all

lemma coerced_PInf: "(orZero (Number v) = PInf) = (v = Some PInf)"
  by (cases v) (auto simp: orZero_def)

lemma coerced_infinite: "(\<not> isFinite (orZero (Number v))) = (v = Some PInf \<or> v = Some NInf)"
proof (cases v)
  case None
  then show ?thesis by (simp add: orZero_def)
next
  case (Some x)
  then show ?thesis by (cases x) (simp_all add: orZero_def)
qed

text \<open>
  C1 (as amended). The severity lies in the closed interval from 0 to 1 for every input
  record except those with alpha = +Infinity and an infinite theta or delta, where the
  result is NaN. In particular it lies in the interval whenever all three values are
  finite, NaN or missing.
\<close>

theorem severity_range:
  "in01 (computeStrokeSeverity vals) =
   (\<not> (field alpha vals = Some PInf \<and>
        (field theta vals = Some PInf \<or> field theta vals = Some NInf \<or>
         field delta vals = Some PInf \<or> field delta vals = Some NInf)))"
proof -
  define al where "al = orZero (Number (field alpha vals))"
  define th where "th = orZero (Number (field theta vals))"
  define de where "de = orZero (Number (field delta vals))"
  define alphaLow where "alphaLow = clamp (jdiv (jsub (Fin 9) al) (Fin 9)) (Fin 0) (Fin 1)"
  define thetaHigh where
    "thetaHigh = clamp (jdiv (jsub th (Fin (55 / 10))) (Fin (55 / 10))) (Fin 0) (Fin 1)"
  define deltaHigh where
    "deltaHigh = clamp (jdiv (jsub de (Fin (35 / 10))) (Fin (35 / 10))) (Fin 0) (Fin 1)"
  define tarArg where
    "tarArg = jdiv (jsub (jdiv th (Math_max al (Fin (1 / 10)))) (Fin (4 / 10))) (Fin (12 / 10))"
  define darArg where
    "darArg = jdiv (jsub (jdiv de (Math_max al (Fin (1 / 10)))) (Fin (2 / 10))) (Fin 1)"
  define severity where
    "severity = jadd (jadd (jadd (jadd (jmul (Fin (15 / 100)) alphaLow)
                                   (jmul (Fin (3 / 10)) thetaHigh))
                             (jmul (Fin (3 / 10)) deltaHigh))
                       (jmul (Fin (15 / 100)) (clamp tarArg (Fin 0) (Fin 1))))
                 (jmul (Fin (1 / 10)) (clamp darArg (Fin 0) (Fin 1)))"
  define severity' where
    "severity' = (if jlt al th \<and> jlt al de then jadd severity (Fin (2 / 10)) else severity)"
  have res: "computeStrokeSeverity vals = clamp (jmul severity' (Fin (14 / 10))) (Fin 0) (Fin 1)"
    by (simp add: computeStrokeSeverity_def Let_def severity'_def severity_def darArg_def
        tarArg_def deltaHigh_def thetaHigh_def alphaLow_def de_def th_def al_def)
  have nn: "al \<noteq> NaN" "th \<noteq> NaN" "de \<noteq> NaN"
    by (simp_all add: al_def th_def de_def orZero_not_NaN)
  have a: "isFinite alphaLow"
    unfolding alphaLow_def by (rule clamp01_finite) (rule alphaLow_arg [OF nn(1)])
  have b: "isFinite thetaHigh"
    unfolding thetaHigh_def by (rule clamp01_finite) (rule high_arg [OF _ nn(2)], simp)
  have c: "isFinite deltaHigh"
    unfolding deltaHigh_def by (rule clamp01_finite) (rule high_arg [OF _ nn(3)], simp)
  have tn: "(tarArg = NaN) = (al = PInf \<and> \<not> isFinite th)"
    unfolding tarArg_def by (rule ratio_arg [OF nn(1) nn(2)]) simp
  have dn: "(darArg = NaN) = (al = PInf \<and> \<not> isFinite de)"
    unfolding darArg_def by (rule ratio_arg [OF nn(1) nn(3)]) simp
  have cl: "clamp x (Fin 0) (Fin 1) = NaN \<or> isFinite (clamp x (Fin 0) (Fin 1))" for x
    by (cases x) (simp_all add: clamp01)
  have sev: "(severity = NaN \<and> (tarArg = NaN \<or> darArg = NaN)) \<or>
             (isFinite severity \<and> tarArg \<noteq> NaN \<and> darArg \<noteq> NaN)"
    using weighted_sum [of alphaLow thetaHigh deltaHigh "clamp tarArg (Fin 0) (Fin 1)"
        "clamp darArg (Fin 0) (Fin 1)" "15 / 100" "3 / 10" "3 / 10" "15 / 100" "1 / 10"]
      a b c cl [of tarArg] cl [of darArg] isFinite_not_NaN [OF a] isFinite_not_NaN [OF b]
      isFinite_not_NaN [OF c]
    by (simp add: severity_def clamp01_NaN_iff)
  have sev': "(severity' = NaN \<and> (tarArg = NaN \<or> darArg = NaN)) \<or>
             (isFinite severity' \<and> tarArg \<noteq> NaN \<and> darArg \<noteq> NaN)"
    using sev by (cases severity) (auto simp: severity'_def)
  have "in01 (computeStrokeSeverity vals) = (\<not> (tarArg = NaN \<or> darArg = NaN))"
    using sev' by (cases severity') (auto simp: res in01_clamp)
  also have "\<dots> = (\<not> (al = PInf \<and> (\<not> isFinite th \<or> \<not> isFinite de)))"
    by (auto simp: tn dn)
  also have "\<dots> = (\<not> (field alpha vals = Some PInf \<and>
        (field theta vals = Some PInf \<or> field theta vals = Some NInf \<or>
         field delta vals = Some PInf \<or> field delta vals = Some NInf)))"
    unfolding al_def th_def de_def coerced_PInf coerced_infinite by blast
  finally show ?thesis .
qed

theorem severity_range_witness:
  "in01 (computeStrokeSeverity
     (Some \<lparr>alpha = Some (Fin 2), beta = None, theta = Some NaN, delta = Some PInf\<rparr>))"
  using severity_range
    [of "Some \<lparr>alpha = Some (Fin 2), beta = None, theta = Some NaN, delta = Some PInf\<rparr>"]
  by (simp add: field_def)

text \<open>
  C1 as stated fails: with alpha = +Infinity and theta = +Infinity the ratio theta / alpha
  is NaN, and the function returns NaN, which is not in the interval.
\<close>

theorem severity_range_counterexample:
  "computeStrokeSeverity
     (Some \<lparr>alpha = Some PInf, beta = None, theta = Some PInf, delta = Some (Fin 0)\<rparr>) = NaN \<and>
   \<not> in01 (computeStrokeSeverity
     (Some \<lparr>alpha = Some PInf, beta = None, theta = Some PInf, delta = Some (Fin 0)\<rparr>))"
  by (simp add: computeStrokeSeverity_def Let_def field_def orZero_def jsub_def clamp_def
      Math_max_def Math_min_def)

lemma severity_finite:
  "computeStrokeSeverity
     (Some \<lparr>alpha = Some (Fin a), beta = b, theta = Some (Fin th), delta = Some (Fin de)\<rparr>) =
   Fin (max 0 (min 1 (weightedR a th de * (14 / 10))))"
proof -
  have m: "max a (1 / 10) \<noteq> 0" by (simp add: max_def)
  show ?thesis
    using m unfolding weightedR_def
    by (simp add: computeStrokeSeverity_def Let_def field_def orZero_Fin Math_max_Fin jsub_Fin
        clamp01_Fin del: max.absorb1 max.absorb2 max.absorb3 max.absorb4 min.absorb1 min.absorb2 min.absorb3 min.absorb4)
qed

lemma weightedR_mono:
  assumes "a2 \<le> a1" "0 \<le> th" "0 \<le> de"
  shows "weightedR a1 th de \<le> weightedR a2 th de"
proof -
  have m: "max a2 (1 / 10) \<le> max a1 (1 / 10)" "0 < max a2 (1 / 10)"
    using assms(1) by (auto simp: max_def)
  have 1: "max 0 (min 1 ((9 - a1) / 9)) \<le> max 0 (min 1 ((9 - a2) / 9))"
    by (rule clamp_mono) (use assms(1) in simp)
  have q: "x / max a1 (1 / 10) \<le> x / max a2 (1 / 10)" if "0 \<le> x" for x
    using that m by (intro divide_left_mono) (auto intro: mult_pos_pos less_le_trans)
  have 4: "max 0 (min 1 ((th / max a1 (1 / 10) - 4 / 10) / (12 / 10))) \<le>
           max 0 (min 1 ((th / max a2 (1 / 10) - 4 / 10) / (12 / 10)))"
    by (rule clamp_mono) (use q [OF assms(2)] in \<open>simp add: divide_right_mono\<close>)
  have 5: "max 0 (min 1 ((de / max a1 (1 / 10) - 2 / 10) / 1)) \<le>
           max 0 (min 1 ((de / max a2 (1 / 10) - 2 / 10) / 1))"
    by (rule clamp_mono) (use q [OF assms(3)] in simp)
  have 6: "(if a1 < th \<and> a1 < de then 2 / 10 else 0) \<le>
           (if a2 < th \<and> a2 < de then 2 / 10 else (0::real))"
    using assms(1) by auto
  show ?thesis
    unfolding weightedR_def using 1 4 5 6 by linarith
qed

text \<open>
  C2. For fixed non-negative theta and delta and alpha values with
  \<open>0 \<le> a2 \<le> a1 \<le> 9\<close>, the severity at \<open>a2\<close> is at least the severity at \<open>a1\<close>:
  decreasing alpha never decreases the score.
\<close>

theorem severity_monotone:
  assumes "0 \<le> a2" "a2 \<le> a1" "a1 \<le> 9" "0 \<le> th" "0 \<le> de"
  shows "jge (computeStrokeSeverity
            (Some \<lparr>alpha = Some (Fin a2), beta = b, theta = Some (Fin th), delta = Some (Fin de)\<rparr>))
          (computeStrokeSeverity
            (Some \<lparr>alpha = Some (Fin a1), beta = b, theta = Some (Fin th), delta = Some (Fin de)\<rparr>))"
proof -
  have "weightedR a1 th de * (14 / 10) \<le> weightedR a2 th de * (14 / 10)"
    by (rule mult_right_mono [OF weightedR_mono [OF assms(2,4,5)]]) simp
  then have "max 0 (min 1 (weightedR a1 th de * (14 / 10))) \<le>
             max 0 (min 1 (weightedR a2 th de * (14 / 10)))"
    by (rule clamp_mono)
  then show ?thesis
    unfolding severity_finite jge_def jle_def
    by (simp only: jlt.simps jsnum.distinct not_less simp_thms)
qed

theorem severity_monotone_witness:
  "jge (computeStrokeSeverity
          (Some \<lparr>alpha = Some (Fin 2), beta = None, theta = Some (Fin 6), delta = Some (Fin 4)\<rparr>))
       (computeStrokeSeverity
          (Some \<lparr>alpha = Some (Fin 7), beta = None, theta = Some (Fin 6), delta = Some (Fin 4)\<rparr>))"
  using severity_monotone [of 2 7 6 4 None] by simp

lemma severity_cong:
  assumes "orZero (Number (field alpha v)) = orZero (Number (field alpha w))"
    "orZero (Number (field theta v)) = orZero (Number (field theta w))"
    "orZero (Number (field delta v)) = orZero (Number (field delta w))"
  shows "computeStrokeSeverity v = computeStrokeSeverity w"
  using assms by (simp add: computeStrokeSeverity_def)

lemma orZero_safe: "x \<noteq> PInf \<Longrightarrow> x \<noteq> NInf \<Longrightarrow> orZero (safe x) = orZero x"
  by (cases x) (simp_all add: safe_def orZero_def)

lemma Number_infinite: "(Number v = PInf) = (v = Some PInf)" "(Number v = NInf) = (v = Some NInf)"
  by (cases v; simp)+

text \<open>
  C3 (as amended). The function replaces a NaN or missing alpha, theta or delta by 0 before
  scoring: its result is its result on the input with NaN and missing values replaced
  by 0. When no value is +Infinity or -Infinity, that is also its result on the input
  with every non-finite value replaced by 0. The function has no error branch: every
  input has a result.
\<close>

theorem coercion_nan_only:
  "computeStrokeSeverity vals = computeStrokeSeverity (nanCoercion vals) \<and>
   (field alpha vals \<noteq> Some PInf \<and> field alpha vals \<noteq> Some NInf \<and>
    field theta vals \<noteq> Some PInf \<and> field theta vals \<noteq> Some NInf \<and>
    field delta vals \<noteq> Some PInf \<and> field delta vals \<noteq> Some NInf \<longrightarrow>
    computeStrokeSeverity vals = computeStrokeSeverity (finiteCoercion vals))"
proof (intro conjI impI)
  show "computeStrokeSeverity vals = computeStrokeSeverity (nanCoercion vals)"
    by (rule severity_cong) (simp_all add: nanCoercion_def field_def orZero_idem)
next
  assume "field alpha vals \<noteq> Some PInf \<and> field alpha vals \<noteq> Some NInf \<and>
    field theta vals \<noteq> Some PInf \<and> field theta vals \<noteq> Some NInf \<and>
    field delta vals \<noteq> Some PInf \<and> field delta vals \<noteq> Some NInf"
  then have "orZero (safe (Number (field alpha vals))) = orZero (Number (field alpha vals))"
    "orZero (safe (Number (field theta vals))) = orZero (Number (field theta vals))"
    "orZero (safe (Number (field delta vals))) = orZero (Number (field delta vals))"
    by (simp_all add: orZero_safe Number_infinite)
  then show "computeStrokeSeverity vals = computeStrokeSeverity (finiteCoercion vals)"
    by (intro severity_cong) (simp_all add: finiteCoercion_def field_def)
qed

theorem coercion_nan_only_witness:
  "computeStrokeSeverity (Some \<lparr>alpha = None, beta = None, theta = Some NaN, delta = Some (Fin 4)\<rparr>) =
   computeStrokeSeverity
     (finiteCoercion (Some \<lparr>alpha = None, beta = None, theta = Some NaN, delta = Some (Fin 4)\<rparr>)) \<and>
   finiteCoercion (Some \<lparr>alpha = None, beta = None, theta = Some NaN, delta = Some (Fin 4)\<rparr>) =
   Some \<lparr>alpha = Some (Fin 0), beta = Some (Fin 0), theta = Some (Fin 0), delta = Some (Fin 4)\<rparr>"
proof (rule conjI)
  let ?v = "Some \<lparr>alpha = None, beta = None, theta = Some NaN, delta = Some (Fin 4)\<rparr>"
  have h: "field alpha ?v \<noteq> Some PInf \<and> field alpha ?v \<noteq> Some NInf \<and>
    field theta ?v \<noteq> Some PInf \<and> field theta ?v \<noteq> Some NInf \<and>
    field delta ?v \<noteq> Some PInf \<and> field delta ?v \<noteq> Some NInf"
    by (simp add: field_def)
  show "computeStrokeSeverity ?v = computeStrokeSeverity (finiteCoercion ?v)"
    using coercion_nan_only [of ?v] h by blast
  show "finiteCoercion ?v =
    Some \<lparr>alpha = Some (Fin 0), beta = Some (Fin 0), theta = Some (Fin 0), delta = Some (Fin 4)\<rparr>"
    by (simp add: field_def finiteCoercion_def safe_def)
qed

text \<open>
  C3 as stated fails: \<^verbatim>\<open>Infinity || 0\<close> is Infinity. With alpha = +Infinity and theta = delta = 0
  the result is 0, and on the input with alpha replaced by 0 it is 0.21.
\<close>

theorem coercion_counterexample:
  "computeStrokeSeverity
     (Some \<lparr>alpha = Some PInf, beta = None, theta = Some (Fin 0), delta = Some (Fin 0)\<rparr>) = Fin 0 \<and>
   computeStrokeSeverity
     (finiteCoercion
        (Some \<lparr>alpha = Some PInf, beta = None, theta = Some (Fin 0), delta = Some (Fin 0)\<rparr>)) =
   Fin (21 / 100)"
  by (simp add: computeStrokeSeverity_def Let_def field_def finiteCoercion_def safe_def orZero_def
      jsub_def clamp_def Math_max_def Math_min_def)

section \<open>Playback and interpolation\<close>

lemma ticks_paused: "\<not> playing s \<Longrightarrow> ticks s tss = s"
  by (induction tss) (simp_all add: tick_def)

text \<open>
  C5. When the cursor is at the last trial of the last subject and a tick, while playing,
  brings the interpolation fraction to 1, that tick stops the playback and leaves the
  cursor where it is; every later run of ticks leaves \<open>subjectIndex\<close>, \<open>i\<close> and \<open>tRef\<close>
  unchanged.
\<close>

theorem end_of_dataset:
  assumes "playing s"
    and "i s = int (length (current s)) - 1"
    and "subjectIndex s = int (length (subjects s)) - 1"
    and "1 \<le> tRef s + elapsed s ts / msPerStep"
  shows "\<not> playing (tick s ts) \<and>
         subjectIndex (tick s ts) = subjectIndex s \<and> i (tick s ts) = i s \<and>
         tRef (tick s ts) = 1 \<and>
         (\<forall>tss. subjectIndex (ticks (tick s ts) tss) = subjectIndex s \<and>
                i (ticks (tick s ts) tss) = i s \<and>
                tRef (ticks (tick s ts) tss) = 1 \<and>
                \<not> playing (ticks (tick s ts) tss))"
proof -
  have now: "\<not> playing (tick s ts) \<and>
         subjectIndex (tick s ts) = subjectIndex s \<and> i (tick s ts) = i s \<and>
         tRef (tick s ts) = 1"
    using assms by (simp add: tick_def elapsed_def Let_def)
  then have "ticks (tick s ts) tss = tick s ts" for tss
    by (simp add: ticks_paused)
  with now show ?thesis by simp
qed

theorem end_of_dataset_witness:
  "\<not> playing (tick
      \<lparr>subjects = [[\<lparr>alpha = Fin 8, beta = Fin 5, theta = Fin 4, delta = Fin 2,
                      subject = ''1'', t = Fin 0, ADR = Fin 4, TAR = Fin (1 / 2)\<rparr>]],
       subjectIndex = 0, i = 0, playing = True, tRef = 1 / 2, lastTsRef = 1000\<rparr> 2000) \<and>
   tRef (ticks (tick
      \<lparr>subjects = [[\<lparr>alpha = Fin 8, beta = Fin 5, theta = Fin 4, delta = Fin 2,
                      subject = ''1'', t = Fin 0, ADR = Fin 4, TAR = Fin (1 / 2)\<rparr>]],
       subjectIndex = 0, i = 0, playing = True, tRef = 1 / 2, lastTsRef = 1000\<rparr> 2000)
      [2016, 2033]) = 1"
proof -
  let ?s = "\<lparr>subjects = [[\<lparr>alpha = Fin 8, beta = Fin 5, theta = Fin 4, delta = Fin 2,
                      subject = ''1'', t = Fin 0, ADR = Fin 4, TAR = Fin (1 / 2)\<rparr>]],
       subjectIndex = 0, i = 0, playing = True, tRef = 1 / 2, lastTsRef = 1000\<rparr>"
  have h: "playing ?s" "i ?s = int (length (current ?s)) - 1"
    "subjectIndex ?s = int (length (subjects ?s)) - 1"
    "1 \<le> tRef ?s + elapsed ?s 2000 / msPerStep"
    by (simp_all add: current_def at_index_def elapsed_def msPerStep_def)
  from end_of_dataset [OF h] show ?thesis by blast
qed

text \<open>
  C6 (as amended). Reset sets \<open>i\<close> to 0, \<open>tRef\<close> to 0 and clears \<open>lastTsRef\<close>, and leaves the
  dataset and the subject; in the three variants with gauges it sets \<open>playing\<close>, in the
  radar-only variant it leaves \<open>playing\<close> as it was.
\<close>

theorem reset_effect:
  "i (reset v s) = 0 \<and> tRef (reset v s) = 0 \<and> lastTsRef (reset v s) = 0 \<and>
   subjects (reset v s) = subjects s \<and> subjectIndex (reset v s) = subjectIndex s \<and>
   playing (reset Gauges s) \<and> playing (reset RadarOnly s) = playing s"
  by (simp add: reset_def)

theorem reset_effect_witness:
  "playing (reset Gauges
      \<lparr>subjects = [[\<lparr>alpha = Fin 8, beta = Fin 5, theta = Fin 4, delta = Fin 2,
                      subject = ''1'', t = Fin 0, ADR = Fin 4, TAR = Fin (1 / 2)\<rparr>]],
       subjectIndex = 0, i = 0, playing = False, tRef = 1, lastTsRef = 2400\<rparr>) \<and>
   tRef (reset RadarOnly
      \<lparr>subjects = [[\<lparr>alpha = Fin 8, beta = Fin 5, theta = Fin 4, delta = Fin 2,
                      subject = ''1'', t = Fin 0, ADR = Fin 4, TAR = Fin (1 / 2)\<rparr>]],
       subjectIndex = 0, i = 0, playing = False, tRef = 1, lastTsRef = 2400\<rparr>) = 0"
  using reset_effect [of Gauges
      "\<lparr>subjects = [[\<lparr>alpha = Fin 8, beta = Fin 5, theta = Fin 4, delta = Fin 2,
                      subject = ''1'', t = Fin 0, ADR = Fin 4, TAR = Fin (1 / 2)\<rparr>]],
       subjectIndex = 0, i = 0, playing = False, tRef = 1, lastTsRef = 2400\<rparr>"]
    reset_effect [of RadarOnly
      "\<lparr>subjects = [[\<lparr>alpha = Fin 8, beta = Fin 5, theta = Fin 4, delta = Fin 2,
                      subject = ''1'', t = Fin 0, ADR = Fin 4, TAR = Fin (1 / 2)\<rparr>]],
       subjectIndex = 0, i = 0, playing = False, tRef = 1, lastTsRef = 2400\<rparr>"]
  by blast

text \<open>
  C6 as stated fails in the radar-only variant: after the end of the dataset
  (\<open>playing\<close> false), Reset rewinds and the playback stays paused.
\<close>

theorem reset_counterexample:
  "\<not> playing (reset RadarOnly
      \<lparr>subjects = [[\<lparr>alpha = Fin 8, beta = Fin 5, theta = Fin 4, delta = Fin 2,
                      subject = ''1'', t = Fin 0, ADR = Fin 4, TAR = Fin (1 / 2)\<rparr>]],
       subjectIndex = 0, i = 0, playing = False, tRef = 1, lastTsRef = 2400\<rparr>)"
  by (simp add: reset_def)

lemma current_eq:
  "0 \<le> subjectIndex s \<Longrightarrow> subjectIndex s < int (length (subjects s)) \<Longrightarrow>
   current s = subjects s ! nat (subjectIndex s)"
  by (simp add: current_def at_index_def)

lemma loaded_nth: "loaded ds \<Longrightarrow> 0 \<le> k \<Longrightarrow> k < int (length ds) \<Longrightarrow> ds ! nat k \<noteq> []"
  by (simp add: loaded_def list_all_length)

lemma current_cong:
  "subjects s' = subjects s \<Longrightarrow> subjectIndex s' = subjectIndex s \<Longrightarrow> current s' = current s"
  by (simp add: current_def)

lemma js_rem_range: "0 \<le> a \<Longrightarrow> 0 < b \<Longrightarrow> 0 \<le> js_rem a b \<and> js_rem a b < b"
  by (cases "a = 0") (simp_all add: js_rem_def)

lemma cursorOK_start:
  assumes "loaded (subjects s')" "0 \<le> subjectIndex s'" "subjectIndex s' < int (length (subjects s'))"
    "i s' = 0" "tRef s' = 0"
  shows "cursorOK s'"
  using assms loaded_nth [OF assms(1-3)] by (simp add: cursorOK_def current_eq)

lemma tick_cursorOK:
  assumes "loaded (subjects s)" "cursorOK s" "0 \<le> elapsed s ts"
  shows "cursorOK (tick s ts)"
proof (cases "playing s")
  case False
  then show ?thesis using assms(2) by (simp add: tick_def)
next
  case True
  define tr where "tr = min 1 (tRef s + elapsed s ts / msPerStep)"
  have tr: "0 \<le> tr" "tr \<le> 1"
    using assms(2,3) by (simp_all add: tr_def cursorOK_def msPerStep_def)
  show ?thesis
  proof (cases "1 \<le> tr")
    case False
    then have "tick s ts = s\<lparr>lastTsRef := ts, tRef := tr\<rparr>"
      using True by (simp add: tick_def Let_def tr_def elapsed_def)
    then show ?thesis
      using assms(2) tr by (simp add: cursorOK_def current_def)
  next
    case full: True
    show ?thesis
    proof (cases "i s < int (length (current s)) - 1")
      case True
      then have "tick s ts = s\<lparr>lastTsRef := ts, tRef := 0, i := min (i s + step) (int (length (current s)) - 1)\<rparr>"
        using \<open>playing s\<close> full by (simp add: tick_def Let_def tr_def elapsed_def)
      then show ?thesis
        using assms(2) True by (simp add: cursorOK_def current_def step_def)
    next
      case last: False
      show ?thesis
      proof (cases "subjectIndex s < int (length (subjects s)) - 1")
        case True
        then have eq: "tick s ts = s\<lparr>lastTsRef := 0, tRef := 0, subjectIndex := subjectIndex s + 1, i := 0\<rparr>"
          using \<open>playing s\<close> full last by (simp add: tick_def Let_def tr_def elapsed_def)
        show ?thesis
          unfolding eq using assms(1,2) True
          by (intro cursorOK_start) (simp_all add: cursorOK_def)
      next
        case False
        then have "tick s ts = s\<lparr>lastTsRef := ts, tRef := tr, playing := False\<rparr>"
          using \<open>playing s\<close> full last by (simp add: tick_def Let_def tr_def elapsed_def)
        then show ?thesis
          using assms(2) tr by (simp add: cursorOK_def current_def)
      qed
    qed
  qed
qed

lemma togglePlay_cursorOK: "cursorOK s \<Longrightarrow> cursorOK (togglePlay s)"
  by (simp add: cursorOK_def togglePlay_def current_def)

lemma reset_cursorOK:
  assumes "cursorOK s"
  shows "cursorOK (reset v s)"
proof -
  have c: "current (reset v s) = current s"
    by (simp add: reset_def current_def)
  have "0 < int (length (current s))"
    using assms unfolding cursorOK_def by linarith
  then show ?thesis
    using assms by (simp add: cursorOK_def c) (simp add: reset_def)
qed

lemma prevSubject_cursorOK:
  assumes "loaded (subjects s)" "cursorOK s"
  shows "cursorOK (prevSubject v s)"
proof -
  have n: "0 < int (length (subjects s))" "0 \<le> subjectIndex s - 1 + int (length (subjects s))"
    using assms(2) unfolding cursorOK_def by linarith+
  show ?thesis
    using assms(1) n js_rem_range [OF n(2) n(1)]
    by (intro cursorOK_start) (simp_all add: prevSubject_def)
qed

lemma nextSubject_cursorOK:
  assumes "loaded (subjects s)" "cursorOK s"
  shows "cursorOK (nextSubject v s)"
proof -
  have n: "0 < int (length (subjects s))" "0 \<le> subjectIndex s + 1"
    using assms(2) unfolding cursorOK_def by linarith+
  show ?thesis
    using assms(1) n js_rem_range [OF n(2) n(1)]
    by (intro cursorOK_start) (simp_all add: nextSubject_def)
qed

lemma perform_cursorOK:
  assumes "loaded (subjects s)" "cursorOK s" "tickOK s c"
  shows "cursorOK (perform v s c) \<and> subjects (perform v s c) = subjects s"
proof (cases c)
  case (Tick ts)
  then show ?thesis
    using assms tick_cursorOK [of s ts] by (simp add: tick_def Let_def)
next
  case TogglePlay
  then show ?thesis using assms togglePlay_cursorOK [of s] by (simp add: togglePlay_def)
next
  case Reset
  then show ?thesis using assms reset_cursorOK [of s v] by (simp add: reset_def)
next
  case PrevSubject
  then show ?thesis using assms prevSubject_cursorOK [of s v] by (simp add: prevSubject_def)
next
  case NextSubject
  then show ?thesis using assms nextSubject_cursorOK [of s v] by (simp add: nextSubject_def)
qed

lemma run_cursorOK:
  "loaded (subjects s) \<Longrightarrow> cursorOK s \<Longrightarrow> nonNegative v s cs \<Longrightarrow>
   cursorOK (run v s cs) \<and> subjects (run v s cs) = subjects s"
proof (induction cs arbitrary: s)
  case Nil
  then show ?case by simp
next
  case (Cons c cs)
  from Cons.prems have p: "cursorOK (perform v s c)" "subjects (perform v s c) = subjects s"
    using perform_cursorOK [of s c v] by simp_all
  from Cons.IH [of "perform v s c"] Cons.prems p show ?case by simp
qed

lemma initial_cursorOK: "loaded ds \<Longrightarrow> cursorOK (initial ds)"
  by (rule cursorOK_start) (simp_all add: initial_def loaded_def)

text \<open>
  C10. On a loaded dataset, every state reached from the initial state by ticks with
  non-negative elapsed time and by button clicks satisfies the cursor bounds, and every
  further tick (with non-negative elapsed time) or click keeps them:
  \<open>0 \<le> subjectIndex < subjects.length\<close>, \<open>0 \<le> i < current.length\<close> and \<open>0 \<le> tRef \<le> 1\<close>.
\<close>

theorem cursor_bounds_invariant:
  assumes "loaded ds" "nonNegative v (initial ds) cs"
  shows "cursorOK (run v (initial ds) cs) \<and>
         (\<forall>c. tickOK (run v (initial ds) cs) c \<longrightarrow>
              cursorOK (perform v (run v (initial ds) cs) c))"
proof -
  have r: "cursorOK (run v (initial ds) cs)" "subjects (run v (initial ds) cs) = ds"
    using run_cursorOK [of "initial ds" v cs] assms initial_cursorOK [OF assms(1)]
    by (simp_all add: initial_def)
  show ?thesis
    using r perform_cursorOK [of "run v (initial ds) cs" _ v] assms(1) by simp
qed

theorem cursor_bounds_invariant_witness:
  "cursorOK (run Gauges
     (initial [[\<lparr>alpha = Fin 8, beta = Fin 5, theta = Fin 4, delta = Fin 2,
                 subject = ''1'', t = Fin 0, ADR = Fin 4, TAR = Fin (1 / 2)\<rparr>,
               \<lparr>alpha = Fin 7, beta = Fin 5, theta = Fin 4, delta = Fin 2,
                 subject = ''1'', t = Fin 1, ADR = Fin (7 / 2), TAR = Fin (4 / 7)\<rparr>],
              [\<lparr>alpha = Fin 3, beta = Fin 5, theta = Fin 6, delta = Fin 4,
                 subject = ''2'', t = Fin 0, ADR = Fin (3 / 4), TAR = Fin 2\<rparr>]])
     [Tick 1000, Tick 2200, PrevSubject, Tick 3000]) \<and>
   cursorOK (perform Gauges (run Gauges
     (initial [[\<lparr>alpha = Fin 8, beta = Fin 5, theta = Fin 4, delta = Fin 2,
                 subject = ''1'', t = Fin 0, ADR = Fin 4, TAR = Fin (1 / 2)\<rparr>,
               \<lparr>alpha = Fin 7, beta = Fin 5, theta = Fin 4, delta = Fin 2,
                 subject = ''1'', t = Fin 1, ADR = Fin (7 / 2), TAR = Fin (4 / 7)\<rparr>],
              [\<lparr>alpha = Fin 3, beta = Fin 5, theta = Fin 6, delta = Fin 4,
                 subject = ''2'', t = Fin 0, ADR = Fin (3 / 4), TAR = Fin 2\<rparr>]])
     [Tick 1000, Tick 2200, PrevSubject, Tick 3000]) (Tick 4200))"
proof -
  let ?ds = "[[\<lparr>alpha = Fin 8, beta = Fin 5, theta = Fin 4, delta = Fin 2,
                 subject = ''1'', t = Fin 0, ADR = Fin 4, TAR = Fin (1 / 2)\<rparr>,
               \<lparr>alpha = Fin 7, beta = Fin 5, theta = Fin 4, delta = Fin 2,
                 subject = ''1'', t = Fin 1, ADR = Fin (7 / 2), TAR = Fin (4 / 7)\<rparr>],
              [\<lparr>alpha = Fin 3, beta = Fin 5, theta = Fin 6, delta = Fin 4,
                 subject = ''2'', t = Fin 0, ADR = Fin (3 / 4), TAR = Fin 2\<rparr>]]"
  have l: "loaded ?ds"
    by (simp add: loaded_def)
  have n: "nonNegative Gauges (initial ?ds) [Tick 1000, Tick 2200, PrevSubject, Tick 3000]"
    by (simp add: initial_def tick_def elapsed_def msPerStep_def Let_def current_def at_index_def
        step_def prevSubject_def js_rem_def)
  have k: "tickOK (run Gauges (initial ?ds) [Tick 1000, Tick 2200, PrevSubject, Tick 3000])
             (Tick 4200)"
    by (simp add: initial_def tick_def elapsed_def msPerStep_def Let_def current_def at_index_def
        step_def prevSubject_def js_rem_def)
  from cursor_bounds_invariant [OF l n] k show ?thesis by blast
qed

lemma rounded_Fin: "rounded fl (Fin r) = fl r"
  by (simp add: rounded_def)

lemma rounded_not_finite: "\<not> isFinite x \<Longrightarrow> rounded fl x = x"
  by (cases x) (simp_all add: rounded_def)

lemma lerp_finite:
  "lerp fl (Fin a) (Fin b) (Fin r) =
     rounded fl (jadd (Fin a) (rounded fl (jmul (fl (b - a)) (Fin r))))"
  by (simp add: lerp_def jsub_def rounded_Fin)

lemma lerp_not_finite:
  assumes "\<not> isFinite a \<or> \<not> isFinite b"
  shows "\<not> isFinite (lerp fl a b (Fin r))"
proof (cases "isFinite a")
  case False
  then have "\<not> isFinite (jadd a x)" for x
    by (cases a; cases x) simp_all
  then show ?thesis
    by (simp add: lerp_def rounded_not_finite)
next
  case True
  with assms have b: "\<not> isFinite b" by simp
  from True b have "\<not> isFinite (jsub b a)"
    by (cases a; cases b) (simp_all add: jsub_def)
  then have "\<not> isFinite (jmul (rounded fl (jsub b a)) (Fin r))"
    by (cases "jsub b a") (simp_all add: rounded_def)
  then have "\<not> isFinite (jadd a (rounded fl (jmul (rounded fl (jsub b a)) (Fin r))))"
    using True
    by (cases a; cases "jmul (rounded fl (jsub b a)) (Fin r)") (simp_all add: rounded_def)
  then show ?thesis
    by (simp add: lerp_def rounded_not_finite)
qed

lemma lerp_half:
  "fl 1 = Fin 1 \<Longrightarrow> fl 2 = Fin 2 \<Longrightarrow> fl 3 = Fin 3 \<Longrightarrow> lerp fl (Fin 2) (Fin 4) (Fin (1 / 2)) = Fin 3"
  by (simp add: lerp_finite rounded_Fin)

lemma lerp_overflow:
  assumes "\<not> isFinite (fl (b - a))"
  shows "lerp fl (Fin a) (Fin b) (Fin 0) = NaN"
  using assms by (cases "fl (b - a)") (simp_all add: lerp_finite rounded_def)

lemma sampleField_eq:
  assumes "at_index (current s) (i s) = Some A" "at_index (current s) (target s) = Some B"
  shows "sampleField fl f s = Inr (safe (lerp fl (f A) (f B) (Fin (tRef s))))"
proof -
  have "length (current s) \<noteq> 0"
    using assms(1) by (auto simp: at_index_def split: if_splits)
  then show ?thesis
    using assms by (simp add: sampleField_def)
qed


lemma roundNoLoss_small: "\<bar>x\<bar> \<le> 2 ^ 1023 \<Longrightarrow> roundNoLoss x = Fin x"
proof -
  have "(2::real) ^ 1023 < overflowAt"
    by (simp add: overflowAt_def)
  then show "\<bar>x\<bar> \<le> 2 ^ 1023 \<Longrightarrow> roundNoLoss x = Fin x"
    by (simp add: roundNoLoss_def abs_le_iff)
qed

lemma roundNoLoss_overflow: "roundNoLoss (2 ^ 1023 - - (2 ^ 1023)) = PInf"
  by (simp add: roundNoLoss_def overflowAt_def)



section \<open>Loading the rows: retained and discarded rows\<close>

lemma t_mkRow: "t (mkRow N S r) = NumberV N (trial_number r)"
  by (simp add: mkRow_def Let_def)

lemma notNull_iff: "notNull v = (v \<noteq> Undefined \<and> v \<noteq> Null)"
  by (cases v) simp_all

text \<open>
  C7 (as amended). In the variants that filter with \<^verbatim>\<open>!= null\<close>, the rows that reach the
  grouping are the rows of the input, in order, whose \<^verbatim>\<open>trial_number\<close> and
  \<^verbatim>\<open>subject_number\<close> are neither null nor undefined and whose \<^verbatim>\<open>trial_number\<close> converts
  to a finite number; every other row is discarded. In particular a row with both fields
  present and a finite numeric \<^verbatim>\<open>trial_number\<close>, 0 included, is retained.
\<close>

theorem rows_retained:
  "loadRows N S data =
     map (mkRow N S)
       (filter (\<lambda>r. trial_number r \<noteq> Undefined \<and> trial_number r \<noteq> Null \<and>
                    subject_number r \<noteq> Undefined \<and> subject_number r \<noteq> Null \<and>
                    isFinite (NumberV N (trial_number r))) data) \<and>
   (\<forall>r x. trial_number r = Num (Fin x) \<and> subject_number r \<noteq> Undefined \<and> subject_number r \<noteq> Null
      \<longrightarrow> loadRows N S [r] = [mkRow N S r])"
proof
  have "filter (\<lambda>r. isFinite (t r)) (map (mkRow N S) xs) =
        map (mkRow N S) (filter (\<lambda>r. isFinite (NumberV N (trial_number r))) xs)" for xs
    by (simp add: filter_map o_def t_mkRow)
  then show "loadRows N S data =
     map (mkRow N S)
       (filter (\<lambda>r. trial_number r \<noteq> Undefined \<and> trial_number r \<noteq> Null \<and>
                    subject_number r \<noteq> Undefined \<and> subject_number r \<noteq> Null \<and>
                    isFinite (NumberV N (trial_number r))) data)"
    by (simp add: loadRows_def notNull_iff conj_commute conj_left_commute cong: conj_cong)
  show "\<forall>r x. trial_number r = Num (Fin x) \<and> subject_number r \<noteq> Undefined \<and> subject_number r \<noteq> Null
      \<longrightarrow> loadRows N S [r] = [mkRow N S r]"
    by (simp add: loadRows_def notNull_iff t_mkRow)
qed

theorem rows_retained_witness:
  "loadRows (\<lambda>s. NaN) (\<lambda>v. ''7'')
     [\<lparr>subject_number = Num (Fin 7), trial_number = Num (Fin 0), Alpha = Num (Fin 8),
       Beta = Num (Fin 5), Theta = Null, Delta = Undefined\<rparr>] =
   [\<lparr>alpha = Fin 8, beta = Fin 5, theta = Fin 0, delta = NaN, subject = ''7'', t = Fin 0,
     ADR = NaN, TAR = Fin 0\<rparr>]"
proof -
  let ?r = "\<lparr>subject_number = Num (Fin 7), trial_number = Num (Fin 0), Alpha = Num (Fin 8),
       Beta = Num (Fin 5), Theta = Null, Delta = Undefined\<rparr>"
  have "trial_number ?r = Num (Fin 0) \<and> subject_number ?r \<noteq> Undefined \<and>
        subject_number ?r \<noteq> Null"
    by simp
  with rows_retained [of "\<lambda>s. NaN" "\<lambda>v. ''7''"]
  have "loadRows (\<lambda>s. NaN) (\<lambda>v. ''7'') [?r] = [mkRow (\<lambda>s. NaN) (\<lambda>v. ''7'') ?r]"
    by blast
  then show ?thesis
    by (simp add: mkRow_def Let_def Math_max_def)
qed

text \<open>
  C7 as stated fails: a row with both fields present whose \<^verbatim>\<open>trial_number\<close> is the text
  \<^verbatim>\<open>abc\<close> (\<^verbatim>\<open>Number("abc")\<close> is NaN) passes the first filter and is discarded by
  \<^verbatim>\<open>.filter(r => Number.isFinite(r.t))\<close>, before the grouping.
\<close>

theorem rows_counterexample:
  "loadRows (\<lambda>s. NaN) (\<lambda>v. ''7'')
     [\<lparr>subject_number = Num (Fin 7), trial_number = Str ''abc'', Alpha = Num (Fin 8),
       Beta = Num (Fin 5), Theta = Num (Fin 4), Delta = Num (Fin 2)\<rparr>] = []"
  by (simp add: loadRows_def t_mkRow)

text \<open>
  The radar-only variant filters on truthiness and so also drops a row whose
  \<^verbatim>\<open>trial_number\<close> is the number 0.
\<close>

lemma radar_drops_trial_zero:
  "trial_number r = Num (Fin 0) \<Longrightarrow> loadRows_radar N S [r] = []"
  by (simp add: loadRows_radar_def)

section \<open>Gauge ranges are per subject\<close>

lemma finite_list: "list_all isFinite xs \<Longrightarrow> map Fin (map realOf xs) = xs"
proof (induction xs)
  case Nil
  then show ?case by simp
next
  case (Cons x xs)
  then show ?case by (cases x) simp_all
qed

lemma fold_Math_min: "fold Math_min (map Fin rs) (Fin a) = Fin (fold min rs a)"
  by (induction rs arbitrary: a) (simp_all add: Math_min_Fin)

lemma fold_Math_max: "fold Math_max (map Fin rs) (Fin a) = Fin (fold max rs a)"
  by (induction rs arbitrary: a) (simp_all add: Math_max_Fin)

lemma Math_min_list_Fin: "Math_min_list (map Fin (r # rs)) = Fin (Min (set (r # rs)))"
proof -
  have "Math_min (Fin r) PInf = Fin r"
    by (simp add: Math_min_def)
  then have "Math_min_list (map Fin (r # rs)) = Fin (fold min rs r)"
    by (simp add: Math_min_list_def fold_Math_min)
  then show ?thesis
    by (simp only: Min.set_eq_fold)
qed

lemma Math_max_list_Fin: "Math_max_list (map Fin (r # rs)) = Fin (Max (set (r # rs)))"
proof -
  have "Math_max (Fin r) NInf = Fin r"
    by (simp add: Math_max_def)
  then have "Math_max_list (map Fin (r # rs)) = Fin (fold max rs r)"
    by (simp add: Math_max_list_def fold_Math_max)
  then show ?thesis
    by (simp only: Max.set_eq_fold)
qed

lemma min_max_of_set:
  assumes "list_all isFinite xs" "xs \<noteq> []"
  shows "Math_min_list xs = Fin (Min (realOf ` set xs))"
    and "Math_max_list xs = Fin (Max (realOf ` set xs))"
proof -
  obtain r rs where m: "map realOf xs = r # rs"
    using assms(2) by (cases xs) auto
  have x: "xs = map Fin (r # rs)"
    using finite_list [OF assms(1)] unfolding m by (rule sym)
  have s: "realOf ` set xs = set (r # rs)"
    unfolding m [symmetric] by (rule set_map [symmetric])
  show "Math_min_list xs = Fin (Min (realOf ` set xs))"
    unfolding s by (subst x) (rule Math_min_list_Fin)
  show "Math_max_list xs = Fin (Max (realOf ` set xs))"
    unfolding s by (subst x) (rule Math_max_list_Fin)
qed

lemma subjectMinMax_vals:
  "subjectMinMax rows key =
     (if filter isFinite (map key rows) = [] then \<lparr>min_v = Fin 0, max_v = Fin 1\<rparr>
      else if jeq (Math_min_list (filter isFinite (map key rows)))
                  (Math_max_list (filter isFinite (map key rows)))
      then \<lparr>min_v = jsub (Math_min_list (filter isFinite (map key rows)))
                     (Math_max (Fin (1 / 1000))
                        (jmul (Math_abs (Math_min_list (filter isFinite (map key rows))))
                           (Fin (5 / 100)))),
            max_v = jadd (Math_max_list (filter isFinite (map key rows)))
                     (Math_max (Fin (1 / 1000))
                        (jmul (Math_abs (Math_min_list (filter isFinite (map key rows))))
                           (Fin (5 / 100))))\<rparr>
      else \<lparr>min_v = Math_min_list (filter isFinite (map key rows)),
            max_v = Math_max_list (filter isFinite (map key rows))\<rparr>)"
  by (simp add: subjectMinMax_def Let_def)

lemma subjectMinMax_set:
  assumes "set (filter isFinite (map key rows)) = set (filter isFinite (map key rows'))"
  shows "subjectMinMax rows key = subjectMinMax rows' key"
proof -
  define xs where "xs = filter isFinite (map key rows)"
  define ys where "ys = filter isFinite (map key rows')"
  have s: "set xs = set ys" using assms by (simp add: xs_def ys_def)
  have f: "list_all isFinite xs" "list_all isFinite ys"
    by (simp_all add: xs_def ys_def list_all_iff)
  have e: "(xs = []) = (ys = [])"
    using s by (metis set_empty)
  have v: "subjectMinMax rows key =
     (if xs = [] then \<lparr>min_v = Fin 0, max_v = Fin 1\<rparr>
      else if jeq (Math_min_list xs) (Math_max_list xs)
      then \<lparr>min_v = jsub (Math_min_list xs)
                     (Math_max (Fin (1 / 1000)) (jmul (Math_abs (Math_min_list xs)) (Fin (5 / 100)))),
            max_v = jadd (Math_max_list xs)
                     (Math_max (Fin (1 / 1000)) (jmul (Math_abs (Math_min_list xs)) (Fin (5 / 100))))\<rparr>
      else \<lparr>min_v = Math_min_list xs, max_v = Math_max_list xs\<rparr>)"
    unfolding xs_def by (rule subjectMinMax_vals)
  have w: "subjectMinMax rows' key =
     (if ys = [] then \<lparr>min_v = Fin 0, max_v = Fin 1\<rparr>
      else if jeq (Math_min_list ys) (Math_max_list ys)
      then \<lparr>min_v = jsub (Math_min_list ys)
                     (Math_max (Fin (1 / 1000)) (jmul (Math_abs (Math_min_list ys)) (Fin (5 / 100)))),
            max_v = jadd (Math_max_list ys)
                     (Math_max (Fin (1 / 1000)) (jmul (Math_abs (Math_min_list ys)) (Fin (5 / 100))))\<rparr>
      else \<lparr>min_v = Math_min_list ys, max_v = Math_max_list ys\<rparr>)"
    unfolding ys_def by (rule subjectMinMax_vals)
  show ?thesis
  proof (cases "xs = []")
    case True
    with e have "ys = []" by simp
    with True show ?thesis
      unfolding v w by simp
  next
    case False
    with e have n: "ys \<noteq> []" by simp
    have mn: "Math_min_list xs = Math_min_list ys"
      using min_max_of_set(1) [OF f(1) False] min_max_of_set(1) [OF f(2) n] s by simp
    have mx: "Math_max_list xs = Math_max_list ys"
      using min_max_of_set(2) [OF f(1) False] min_max_of_set(2) [OF f(2) n] s by simp
    show ?thesis
      unfolding v w mn mx using False n by simp
  qed
qed

lemma js_rem_next:
  assumes "0 \<le> k" "k < n"
  shows "js_rem (k + 1) n = (if k = n - 1 then 0 else k + 1)"
proof -
  have "0 < k + 1" "0 < n" using assms by simp_all
  then show ?thesis
    using assms by (simp add: js_rem_def)
qed

lemma js_rem_prev:
  assumes "0 \<le> k" "k < n"
  shows "js_rem (k - 1 + n) n = (if k = 0 then n - 1 else k - 1)"
proof (cases "k = 0")
  case True
  then show ?thesis
    using assms by (cases "n = 1") (simp_all add: js_rem_def zmod_minus1)
next
  case False
  then have p: "0 < k - 1 + n" "0 \<le> k - 1" "k - 1 < n" using assms by simp_all
  have "(k - 1 + n) mod n = k - 1"
    using p by simp
  then show ?thesis
    using False p assms by (simp add: js_rem_def)
qed

lemma current_at:
  "0 \<le> k \<Longrightarrow> k < int (length (subjects s)) \<Longrightarrow> subjectIndex s = k \<Longrightarrow>
   current s = subjects s ! nat k"
  by (simp add: current_def at_index_def)

lemma range_after_next:
  assumes "0 \<le> subjectIndex s" "subjectIndex s < int (length (subjects s))"
  shows "gaugeRange key (nextSubject v s) =
     subjectMinMax
       (subjects s ! nat (if subjectIndex s = int (length (subjects s)) - 1 then 0
                          else subjectIndex s + 1)) key"
proof -
  have n: "length (subjects s) \<noteq> 0" using assms by auto
  have "current (nextSubject v s) =
     subjects s ! nat (if subjectIndex s = int (length (subjects s)) - 1 then 0
                          else subjectIndex s + 1)"
    using assms n
    by (simp add: current_def at_index_def nextSubject_def js_rem_next [OF assms])
  then show ?thesis by (simp add: gaugeRange_def)
qed

lemma range_after_prev:
  assumes "0 \<le> subjectIndex s" "subjectIndex s < int (length (subjects s))"
  shows "gaugeRange key (prevSubject v s) =
     subjectMinMax
       (subjects s ! nat (if subjectIndex s = 0 then int (length (subjects s)) - 1
                          else subjectIndex s - 1)) key"
proof -
  have n: "length (subjects s) \<noteq> 0" using assms by auto
  have "current (prevSubject v s) =
     subjects s ! nat (if subjectIndex s = 0 then int (length (subjects s)) - 1
                          else subjectIndex s - 1)"
    using assms n
    by (simp add: current_def at_index_def prevSubject_def js_rem_prev [OF assms])
  then show ?thesis by (simp add: gaugeRange_def)
qed

lemma stats_perform: "stats (perform v d c) = stats d"
  by (cases c) (simp_all add: tick_def Let_def togglePlay_def reset_def prevSubject_def
      nextSubject_def)

lemma stats_min:
  "Math_min_list (filter isFinite xs @ [Fin a]) = Fin (Min (insert a (realOf ` set (filter isFinite xs))))"
proof -
  have "list_all isFinite (filter isFinite xs @ [Fin a])"
    by (simp add: list_all_iff)
  from min_max_of_set(1) [OF this] show ?thesis
    by (simp add: insert_commute)
qed

lemma stats_max:
  "Math_max_list (filter isFinite xs @ [Fin a]) = Fin (Max (insert a (realOf ` set (filter isFinite xs))))"
proof -
  have "list_all isFinite (filter isFinite xs @ [Fin a])"
    by (simp add: list_all_iff)
  from min_max_of_set(2) [OF this] show ?thesis
    by (simp add: insert_commute)
qed




section \<open>The trend alert\<close>

lemma slice_nat:
  assumes "k \<le> length xs" "m \<le> length xs"
  shows "slice xs (int k) (int m) = take (m - k) (drop k xs)"
proof -
  have "min (int k) (int (length xs)) = int k" "min (int m) (int (length xs)) = int m"
    using assms by simp_all
  moreover have "nat (int m - int k) = m - k"
    by simp
  ultimately show ?thesis
    unfolding slice_def Let_def by simp
qed

lemma window_start: "max 0 (int n - 5) = int (n - 5)"
  by (cases "5 \<le> n") simp_all

lemma slice_window:
  assumes "0 \<le> ci" "ci < int (length xs)"
  shows "slice xs (max 0 (ci - 5)) (ci + 1) = trendWindow_spec xs (nat ci) 5"
proof -
  obtain n where n: "ci = int n"
    using assms(1) by (rule nonneg_int_cases)
  have l: "n < length xs"
    using assms(2) unfolding n by simp
  have e: "ci + 1 = int (n + 1)"
    unfolding n by simp
  have "slice xs (max 0 (ci - 5)) (ci + 1) = slice xs (int (n - 5)) (int (n + 1))"
    unfolding e unfolding n window_start ..
  also have "\<dots> = take (n + 1 - (n - 5)) (drop (n - 5) xs)"
    using l by (intro slice_nat) simp_all
  also have "\<dots> = drop (n - 5) (take (n + 1) xs)"
    by (simp only: drop_take)
  also have "\<dots> = trendWindow_spec xs n 5"
  proof -
    have "length (take (n + 1) xs) = n + 1"
      using l by simp
    then show ?thesis
      unfolding trendWindow_spec_def Let_def by simp
  qed
  finally show ?thesis
    unfolding n by simp
qed

lemma alert_refines:
  assumes "0 \<le> ci" "ci < int (length history)"
  shows "alertLevel history ci =
        Some (classifyTrendAlert_spec (map (\<lambda>d. orZero (Number (slope d))) history) (nat ci))"
proof -
  have n: "length history \<noteq> 0" using assms by auto
  have w: "slice (map (\<lambda>d. orZero (Number (slope d))) history) (max 0 (ci - 5)) (ci + 1) =
      trendWindow_spec (map (\<lambda>d. orZero (Number (slope d))) history) (nat ci) 5"
    using assms by (intro slice_window) simp_all
  show ?thesis
    using n w
    by (simp add: alertLevel_def classifyTrendAlert_spec_def Let_def not_less del: One_nat_def)
qed

lemma alert_identical:
  assumes "length history = 6" "\<forall>d \<in> set history. slope d = v"
  shows "alertLevel history 5 = Some NORMAL"
proof -
  define x where "x = orZero (Number v)"
  have m: "map (\<lambda>d. orZero (Number (slope d))) history = replicate 6 x"
    using assms by (simp add: x_def map_replicate_const cong: map_cong)
  have sl: "slice (replicate 6 x) (max 0 (5 - 5)) (5 + 1) = replicate 6 x"
    using slice_nat [of 0 "replicate 6 x" 6] by simp
  have z: "\<not> jgt (jdiv (Math_abs (jsub x x)) (Fin 6)) (Fin c)" if "0 < c" for c
    using that by (cases x) (simp_all add: jsub_def jgt_def)
  have "alertLevel history 5 =
    Some (if jgt (jdiv (Math_abs (jsub x x)) (Fin 6)) (Fin (3 / 10)) then HIGH
          else if jgt (jdiv (Math_abs (jsub x x)) (Fin 6)) (Fin (15 / 100)) then MEDIUM
          else NORMAL)"
    unfolding alertLevel_def Let_def m sl using assms(1) by simp
  then show ?thesis
    by (simp add: z)
qed

lemma alert_jump:
  assumes "history = [p0, p1, p2, p3, p4]" "slope p0 = Some (Fin a)"
    "slope p4 = Some (Fin b)" "\<bar>b - a\<bar> = 2"
  shows "alertLevel history 4 = Some HIGH"
proof -
  define xs where "xs = map (\<lambda>d. orZero (Number (slope d))) history"
  have x: "length xs = 5" "hd xs = Fin a" "last xs = Fin b"
    using assms(1-3) by (simp_all add: xs_def orZero_Fin)
  have sl: "slice xs (max 0 (4 - 5)) (4 + 1) = xs"
    using slice_nat [of 0 xs 5] x(1) by simp
  have "alertLevel history 4 =
    Some (if jgt (jdiv (Math_abs (jsub (Fin b) (Fin a))) (Fin 5)) (Fin (3 / 10)) then HIGH
          else if jgt (jdiv (Math_abs (jsub (Fin b) (Fin a))) (Fin 5)) (Fin (15 / 100)) then MEDIUM
          else NORMAL)"
    unfolding alertLevel_def Let_def xs_def [symmetric] sl x using assms(1) by simp
  then show ?thesis
    using assms(4) by (simp add: jsub_def jgt_def)
qed

text \<open>
  C9. For a current index inside the history, the alert level is the spec's
  classification of the coerced slope values: the window is the last six values ending
  at the current index, the change is 0 on fewer than two samples and
  \<open>|last - first| / count\<close> otherwise, HIGH above 0.3, MEDIUM above 0.15, else NORMAL. Six
  samples with identical slope values give NORMAL, and five samples whose last and first
  slopes differ by 2 give HIGH.
\<close>

theorem trend_alert:
  "(0 \<le> ci \<and> ci < int (length history) \<longrightarrow>
      alertLevel history ci =
        Some (classifyTrendAlert_spec (map (\<lambda>d. orZero (Number (slope d))) history) (nat ci))) \<and>
   (length history' = 6 \<and> (\<forall>d \<in> set history'. slope d = v) \<longrightarrow>
      alertLevel history' 5 = Some NORMAL) \<and>
   (slope p0 = Some (Fin a) \<and> slope p4 = Some (Fin b) \<and> \<bar>b - a\<bar> = 2 \<longrightarrow>
      alertLevel [p0, p1, p2, p3, p4] 4 = Some HIGH)"
  using alert_refines [of ci history] alert_identical [of history' v]
    alert_jump [of "[p0, p1, p2, p3, p4]" p0 p1 p2 p3 p4 a b]
  by blast

theorem trend_alert_witness:
  "alertLevel
     [\<lparr>time = Some (Fin 0), slope = Some (Fin (- 1))\<rparr>,
      \<lparr>time = Some (Fin 1), slope = Some (Fin (- 12 / 10))\<rparr>,
      \<lparr>time = Some (Fin 2), slope = Some (Fin (- 15 / 10))\<rparr>,
      \<lparr>time = Some (Fin 3), slope = Some (Fin (- 17 / 10))\<rparr>,
      \<lparr>time = Some (Fin 4), slope = Some (Fin (- 2))\<rparr>,
      \<lparr>time = Some (Fin 5), slope = Some (Fin (- 22 / 10))\<rparr>,
      \<lparr>time = Some (Fin 6), slope = Some (Fin (- 24 / 10))\<rparr>] 6 = Some MEDIUM \<and>
   alertLevel
     [\<lparr>time = Some (Fin 0), slope = Some (Fin (- 3))\<rparr>,
      \<lparr>time = Some (Fin 1), slope = None\<rparr>,
      \<lparr>time = Some (Fin 2), slope = Some NaN\<rparr>,
      \<lparr>time = Some (Fin 3), slope = Some (Fin (- 2))\<rparr>,
      \<lparr>time = Some (Fin 4), slope = Some (Fin (- 1))\<rparr>] 4 = Some HIGH \<and>
   alertLevel
     [\<lparr>time = Some (Fin 0), slope = Some (Fin (- 3 / 2))\<rparr>,
      \<lparr>time = Some (Fin 1), slope = Some (Fin (- 3 / 2))\<rparr>,
      \<lparr>time = Some (Fin 2), slope = Some (Fin (- 3 / 2))\<rparr>,
      \<lparr>time = Some (Fin 3), slope = Some (Fin (- 3 / 2))\<rparr>,
      \<lparr>time = Some (Fin 4), slope = Some (Fin (- 3 / 2))\<rparr>,
      \<lparr>time = Some (Fin 5), slope = Some (Fin (- 3 / 2))\<rparr>] 5 = Some NORMAL"
proof (intro conjI)
  let ?h = "[\<lparr>time = Some (Fin 0), slope = Some (Fin (- 1))\<rparr>,
      \<lparr>time = Some (Fin 1), slope = Some (Fin (- 12 / 10))\<rparr>,
      \<lparr>time = Some (Fin 2), slope = Some (Fin (- 15 / 10))\<rparr>,
      \<lparr>time = Some (Fin 3), slope = Some (Fin (- 17 / 10))\<rparr>,
      \<lparr>time = Some (Fin 4), slope = Some (Fin (- 2))\<rparr>,
      \<lparr>time = Some (Fin 5), slope = Some (Fin (- 22 / 10))\<rparr>,
      \<lparr>time = Some (Fin 6), slope = Some (Fin (- 24 / 10))\<rparr>]"
  have "0 \<le> (6::int) \<and> 6 < int (length ?h)" by simp
  with trend_alert [of 6 ?h] have "alertLevel ?h 6 =
      Some (classifyTrendAlert_spec (map (\<lambda>d. orZero (Number (slope d))) ?h) (nat 6))"
    by blast
  also have "nat 6 = Suc (Suc (Suc (Suc (Suc (Suc 0)))))"
    by simp
  finally show "alertLevel ?h 6 = Some MEDIUM"
    by (simp add: classifyTrendAlert_spec_def trendWindow_spec_def Let_def orZero_def jsub_def
        jgt_def)
next
  let ?p0 = "\<lparr>time = Some (Fin 0), slope = Some (Fin (- 3))\<rparr>"
  let ?p4 = "\<lparr>time = Some (Fin 4), slope = Some (Fin (- 1))\<rparr>"
  have "slope ?p0 = Some (Fin (- 3)) \<and> slope ?p4 = Some (Fin (- 1)) \<and> \<bar>- 1 - (- 3) :: real\<bar> = 2"
    by simp
  with trend_alert [of _ _ _ _ ?p0 "- 3" ?p4 "- 1"]
  show "alertLevel
     [?p0, \<lparr>time = Some (Fin 1), slope = None\<rparr>, \<lparr>time = Some (Fin 2), slope = Some NaN\<rparr>,
      \<lparr>time = Some (Fin 3), slope = Some (Fin (- 2))\<rparr>, ?p4] 4 = Some HIGH"
    by blast
next
  let ?h = "[\<lparr>time = Some (Fin 0), slope = Some (Fin (- 3 / 2))\<rparr>,
      \<lparr>time = Some (Fin 1), slope = Some (Fin (- 3 / 2))\<rparr>,
      \<lparr>time = Some (Fin 2), slope = Some (Fin (- 3 / 2))\<rparr>,
      \<lparr>time = Some (Fin 3), slope = Some (Fin (- 3 / 2))\<rparr>,
      \<lparr>time = Some (Fin 4), slope = Some (Fin (- 3 / 2))\<rparr>,
      \<lparr>time = Some (Fin 5), slope = Some (Fin (- 3 / 2))\<rparr>]"
  have "length ?h = 6 \<and> (\<forall>d \<in> set ?h. slope d = Some (Fin (- 3 / 2)))"
    by simp
  with trend_alert [of _ _ ?h "Some (Fin (- 3 / 2))"]
  show "alertLevel ?h 5 = Some NORMAL"
    by blast
qed

end
